theory Spec2Isabelle
  imports Main "HOL-Library.Word"
begin

section \<open>JavaScript values\<close>

text \<open>
  A JavaScript string is a sequence of 16-bit code units. Literals of the source are
  written with \<open>js\<close>, which maps every (ASCII) character to its code unit.
\<close>

type_synonym jschar = "16 word"
type_synonym jsstring = "jschar list"

definition js :: "string \<Rightarrow> jsstring" where
  "js = map (\<lambda>c. of_nat (of_char c))"

text \<open>
  A thrown value (or the reason of a rejected promise) is either an \<open>Error\<close> instance,
  which has a message, or some other value (\<open>err instanceof Error\<close> is false), for
  instance the progress event that \<open>FileReader.onerror\<close> receives.
\<close>

datatype js_value = JsError jsstring | OtherValue

text \<open>How an awaited promise settles.\<close>

datatype 'a settled = Resolved 'a | Rejected js_value

section \<open>Data URL codec (src/App.tsx)\<close>

record js_file =
  file_bytes :: "8 word list"
  file_type :: jsstring

subsection \<open>Encoding\<close>

definition b64_alphabet :: string where
  "b64_alphabet = ''ABCDEFGHIJKLMNOPQRSTUVWXYZabcdefghijklmnopqrstuvwxyz0123456789+/''"

definition b64_char :: "nat \<Rightarrow> jschar" where
  "b64_char n = of_nat (of_char (b64_alphabet ! (n mod 64)))"

definition b64_pad :: jschar where
  "b64_pad = 0x3D"

text \<open>
  Modelled from the spec: \<open>base64(b)\<close> of the round-trip property is computed by the
  browser, not by the repository; this is the standard alphabet with padding (RFC 4648),
  three bytes to four characters.
\<close>

fun base64_encode :: "8 word list \<Rightarrow> jsstring" where
  "base64_encode [] = []"
| "base64_encode [a] =
     (let n = unat a * 65536
      in [b64_char (n div 262144), b64_char (n div 4096), b64_pad, b64_pad])"
| "base64_encode [a, b] =
     (let n = unat a * 65536 + unat b * 256
      in [b64_char (n div 262144), b64_char (n div 4096), b64_char (n div 64), b64_pad])"
| "base64_encode (a # b # c # rest) =
     (let n = unat a * 65536 + unat b * 256 + unat c
      in [b64_char (n div 262144), b64_char (n div 4096), b64_char (n div 64), b64_char n]
         @ base64_encode rest)"

text \<open>
  Modelled from the spec: \<open>FileReader.readAsDataURL\<close> is a browser primitive. The spec
  gives the form of what it produces, \<open>data:<mimeType>;base64,<payload>\<close>.
\<close>

definition encode :: "8 word list \<Rightarrow> jsstring \<Rightarrow> jsstring" where
  "encode bytes mimeType = js ''data:'' @ mimeType @ js '';base64,'' @ base64_encode bytes"

text \<open>
  \<open>fileToDataUrl\<close> wraps the reader in a promise: \<open>onload\<close> resolves it with
  \<open>reader.result\<close>, \<open>onerror\<close> rejects it with the event it receives, which is not an
  \<open>Error\<close>.
\<close>

datatype reader_event = OnLoad jsstring | OnError

definition fileToDataUrl :: "reader_event \<Rightarrow> jsstring settled" where
  "fileToDataUrl ev = (case ev of OnLoad result \<Rightarrow> Resolved result | OnError \<Rightarrow> Rejected OtherValue)"

subsection \<open>Decoding: the regular expression \<open>/^data:(.+);base64,(.+)$/\<close>\<close>

text \<open>
  Without the \<open>s\<close> flag, \<open>.\<close> matches every code unit but the four line terminators.
\<close>

definition isLineTerminator :: "jschar \<Rightarrow> bool" where
  "isLineTerminator c = (c = 0x000A \<or> c = 0x000D \<or> c = 0x2028 \<or> c = 0x2029)"

definition dot :: "jschar \<Rightarrow> bool" where
  "dot c = (\<not> isLineTerminator c)"

text \<open>A literal: the input must start with it; the rest of the input is returned.\<close>

fun lit :: "jsstring \<Rightarrow> jsstring \<Rightarrow> jsstring option" where
  "lit [] s = Some s"
| "lit (p # ps) [] = None"
| "lit (p # ps) (c # cs) = (if p = c then lit ps cs else None)"

text \<open>
  A greedy quantifier with backtracking: the group takes \<open>n\<close> code units, and the rest of
  the pattern (the continuation \<open>k\<close>) is tried on what follows; when that fails the group
  gives one code unit back. \<open>+\<close> needs at least one.
\<close>

fun greedy :: "nat \<Rightarrow> (jsstring \<Rightarrow> 'r option) \<Rightarrow> jsstring \<Rightarrow> (jsstring \<times> 'r) option" where
  "greedy 0 k s = None"
| "greedy (Suc n) k s =
     (case k (drop (Suc n) s) of
        Some r \<Rightarrow> Some (take (Suc n) s, r)
      | None \<Rightarrow> greedy n k s)"

text \<open>The group \<open>(.+)\<close>: it starts with as many code units as \<open>.\<close> accepts.\<close>

definition dot_plus :: "(jsstring \<Rightarrow> 'r option) \<Rightarrow> jsstring \<Rightarrow> (jsstring \<times> 'r) option" where
  "dot_plus k s = greedy (length (takeWhile dot s)) k s"

text \<open>\<open>$\<close> without the \<open>m\<close> flag: the end of the input.\<close>

definition end_anchor :: "jsstring \<Rightarrow> unit option" where
  "end_anchor s = (if s = [] then Some () else None)"

text \<open>What follows the first group: \<open>;base64,(.+)$\<close>. It returns the second group.\<close>

definition after_type :: "jsstring \<Rightarrow> jsstring option" where
  "after_type s =
     (case lit (js '';base64,'') s of
        None \<Rightarrow> None
      | Some s' \<Rightarrow> (case dot_plus end_anchor s' of None \<Rightarrow> None | Some (g2, _) \<Rightarrow> Some g2))"

text \<open>
  The whole expression. \<open>^\<close> (no \<open>m\<close> flag) holds at index 0 only, so the match is
  attempted there and nowhere else. The result is the pair of the two groups.
\<close>

definition data_url_regex :: "jsstring \<Rightarrow> (jsstring \<times> jsstring) option" where
  "data_url_regex s =
     (case lit (js ''data:'') s of
        None \<Rightarrow> None
      | Some s' \<Rightarrow> dot_plus after_type s')"

record data_url_parts =
  mimeType :: jsstring
  base64 :: jsstring

definition parseDataUrl :: "jsstring \<Rightarrow> js_value + data_url_parts" where
  "parseDataUrl dataUrl =
     (case data_url_regex dataUrl of
        None \<Rightarrow> Inl (JsError (js ''Invalid data URL format''))
      | Some (g1, g2) \<Rightarrow> Inr \<lparr>mimeType = g1, base64 = g2\<rparr>)"

text \<open>
  The pattern \<open>data:<type>;base64,<payload>\<close> in the spec's words, for comparison with
  the expression above: the prefix \<open>data:\<close>, a type, the separator \<open>;base64,\<close> with its
  semicolon and its comma, and a payload. Nothing is asked of the type and the payload.
\<close>

definition matches_data_url_pattern :: "jsstring \<Rightarrow> bool" where
  "matches_data_url_pattern s = (\<exists>t p. s = js ''data:'' @ t @ js '';base64,'' @ p)"

text \<open>
  The strings of that pattern in which the type and the payload are not empty and hold
  no line terminator.
\<close>

definition single_line_data_url :: "jsstring \<Rightarrow> bool" where
  "single_line_data_url s =
     (\<exists>t p. t \<noteq> [] \<and> p \<noteq> [] \<and> list_all dot t \<and> list_all dot p \<and>
            s = js ''data:'' @ t @ js '';base64,'' @ p)"

section \<open>Edit service client (src/unnamed/part_000)\<close>

text \<open>
  The response of \<open>generateContent\<close>, as far as \<open>editImage\<close> reads it. Every level is
  optional, as the optional chaining of the source says.
\<close>

record blob =
  data :: "jsstring option"
  blob_mimeType :: "jsstring option"

record part =
  inlineData :: "blob option"
  part_text :: "jsstring option"

record content =
  parts :: "part list option"

record candidate =
  candidate_content :: "content option"

record response =
  candidates :: "candidate list option"

datatype modality = IMAGE

record generate_request =
  model :: jsstring
  contents_parts :: "part list"
  responseModalities :: "modality list"

definition editImage_request :: "jsstring \<Rightarrow> jsstring \<Rightarrow> jsstring \<Rightarrow> generate_request" where
  "editImage_request base64Data mimeType' prompt' =
     \<lparr>model = js ''gemini-2.5-flash-image'',
      contents_parts =
        [\<lparr>inlineData = Some \<lparr>data = Some base64Data, blob_mimeType = Some mimeType'\<rparr>,
          part_text = None\<rparr>,
         \<lparr>inlineData = None, part_text = Some prompt'\<rparr>],
      responseModalities = [IMAGE]\<rparr>"

text \<open>\<open>response.candidates?.[0]?.content?.parts || []\<close>\<close>

definition response_parts :: "response \<Rightarrow> part list" where
  "response_parts r =
     (case candidates r of
        None \<Rightarrow> []
      | Some [] \<Rightarrow> []
      | Some (c # _) \<Rightarrow>
          (case candidate_content c of
             None \<Rightarrow> []
           | Some ct \<Rightarrow> (case parts ct of None \<Rightarrow> [] | Some ps \<Rightarrow> ps)))"

text \<open>\<open>x || d\<close> on an optional string: \<open>undefined\<close> and the empty string are falsy.\<close>

definition string_or :: "jsstring option \<Rightarrow> jsstring \<Rightarrow> jsstring" where
  "string_or x d = (case x of None \<Rightarrow> d | Some s \<Rightarrow> if s = [] then d else s)"

text \<open>An optional string inside a template literal: \<open>undefined\<close> is written out.\<close>

definition interpolate :: "jsstring option \<Rightarrow> jsstring" where
  "interpolate x = (case x of None \<Rightarrow> js ''undefined'' | Some s \<Rightarrow> s)"

text \<open>The \<open>for\<close> loop over the parts; it returns from the first part with inline data.\<close>

fun scan_parts :: "part list \<Rightarrow> jsstring option" where
  "scan_parts [] = None"
| "scan_parts (p # ps) =
     (case inlineData p of
        Some d \<Rightarrow>
          Some (js ''data:'' @ string_or (blob_mimeType d) (js ''image/png'') @ js '';base64,''
                @ interpolate (data d))
      | None \<Rightarrow> scan_parts ps)"

text \<open>The \<open>try\<close> block, from the point where the awaited call has settled.\<close>

definition editImage_try :: "response settled \<Rightarrow> js_value + jsstring" where
  "editImage_try outcome =
     (case outcome of
        Rejected e \<Rightarrow> Inl e
      | Resolved r \<Rightarrow>
          (case scan_parts (response_parts r) of
             Some url \<Rightarrow> Inr url
           | None \<Rightarrow> Inl (JsError (js ''No image data found in the Gemini API response.''))))"

text \<open>The \<open>catch\<close> block: what it throws for what it caught.\<close>

definition editImage_catch :: "js_value \<Rightarrow> js_value" where
  "editImage_catch e =
     (case e of
        JsError m \<Rightarrow> JsError (js ''Failed to edit image: '' @ m)
      | OtherValue \<Rightarrow> JsError (js ''An unknown error occurred while editing the image.''))"

definition editImage_settle :: "response settled \<Rightarrow> js_value + jsstring" where
  "editImage_settle outcome =
     (case editImage_try outcome of Inl e \<Rightarrow> Inl (editImage_catch e) | Inr url \<Rightarrow> Inr url)"

text \<open>
  The remote service is a parameter: what the one call of \<open>generateContent\<close> settles to,
  for the request it is given.
\<close>

definition editImage ::
  "(generate_request \<Rightarrow> response settled) \<Rightarrow> jsstring \<Rightarrow> jsstring \<Rightarrow> jsstring \<Rightarrow> js_value + jsstring"
where
  "editImage generateContent base64Data mimeType' prompt' =
     editImage_settle (generateContent (editImage_request base64Data mimeType' prompt'))"

section \<open>The App component (src/App.tsx)\<close>

text \<open>
  \<open>URL.createObjectURL\<close> returns a new URL at every call; the model numbers them.
\<close>

datatype object_url = BlobUrl nat

text \<open>A run of \<open>handleSubmit\<close> suspended at one of its two \<open>await\<close>s.\<close>

datatype submission = Reading js_file jsstring | Requesting generate_request

text \<open>
  The six state variables of the component, and what lies outside them: the URL that the
  cleanup of the last effect has captured, the object URLs created and revoked so far,
  and the suspended runs of \<open>handleSubmit\<close>.
\<close>

record app =
  imageFile :: "js_file option"
  imagePreviewUrl :: "object_url option"
  prompt :: jsstring
  generatedImageUrl :: "jsstring option"
  isLoading :: bool
  error :: "jsstring option"
  cleanupUrl :: "object_url option"
  created :: nat
  revoked :: "object_url list"
  inFlight :: "submission list"

definition initial_prompt :: jsstring where
  "initial_prompt =
     js ''L'image que j'envoie doit '' @ [0xEA] @ js ''tre utilis'' @ [0xE9]
     @ js ''e comme couverture d'un livre qui sera plac'' @ [0xE9] @ js '' dans un d'' @ [0xE9]
     @ js ''cor correspondant '' @ [0xE0]
     @ js '' l'image de base tout en restant naturel. L'image du livre ne doit pas '' @ [0xEA]
     @ js ''tre modifi'' @ [0xE9] @ js ''e, c'est-'' @ [0xE0] @ js ''-dire garder la m'' @ [0xEA]
     @ js ''me typographie, m'' @ [0xEA] @ js ''me couleur, m'' @ [0xEA] @ js ''mes dessins.''"

text \<open>The state after the first render; the effect has run once, with no URL.\<close>

definition initial :: app where
  "initial =
     \<lparr>imageFile = None, imagePreviewUrl = None, prompt = initial_prompt,
      generatedImageUrl = None, isLoading = False, error = None,
      cleanupUrl = None, created = 0, revoked = [], inFlight = []\<rparr>"

definition revokeObjectURL :: "object_url \<Rightarrow> app \<Rightarrow> app" where
  "revokeObjectURL u s = s\<lparr>revoked := revoked s @ [u]\<rparr>"

definition createObjectURL :: "app \<Rightarrow> object_url \<times> app" where
  "createObjectURL s = (BlobUrl (created s), s\<lparr>created := Suc (created s)\<rparr>)"

text \<open>\<open>event.target.files?.[0]\<close>\<close>

definition first_file :: "js_file list option \<Rightarrow> js_file option" where
  "first_file files = (case files of None \<Rightarrow> None | Some [] \<Rightarrow> None | Some (f # _) \<Rightarrow> Some f)"

definition handleImageChange :: "js_file list option \<Rightarrow> app \<Rightarrow> app" where
  "handleImageChange files s =
     (case first_file files of
        None \<Rightarrow> s
      | Some f \<Rightarrow>
          (let s1 = (case imagePreviewUrl s of Some u \<Rightarrow> revokeObjectURL u s | None \<Rightarrow> s);
               (u', s2) = createObjectURL s1
           in s2\<lparr>imageFile := Some f, imagePreviewUrl := Some u',
                 generatedImageUrl := None, error := None\<rparr>))"

definition setPrompt :: "jsstring \<Rightarrow> app \<Rightarrow> app" where
  "setPrompt t s = s\<lparr>prompt := t\<rparr>"

text \<open>
  The effect with dependency \<open>[imagePreviewUrl]\<close>: after a render in which the URL
  differs from the one of the last run, the cleanup of the last run is called (it revokes
  the URL it captured, when there is one) and the effect runs again.
\<close>

definition runEffects :: "app \<Rightarrow> app" where
  "runEffects s =
     (if imagePreviewUrl s = cleanupUrl s then s
      else (case cleanupUrl s of Some u \<Rightarrow> revokeObjectURL u s | None \<Rightarrow> s)
             \<lparr>cleanupUrl := imagePreviewUrl s\<rparr>)"

text \<open>Unmounting the component calls the cleanup of the last run.\<close>

definition unmount :: "app \<Rightarrow> app" where
  "unmount s = (case cleanupUrl s of Some u \<Rightarrow> revokeObjectURL u s | None \<Rightarrow> s)"

text \<open>
  \<open>handleSubmit\<close> up to its first \<open>await\<close>: the validation guard, the three state
  updates and the start of the file read.
\<close>

definition handleSubmit :: "app \<Rightarrow> app" where
  "handleSubmit s =
     (case imageFile s of
        None \<Rightarrow> s\<lparr>error := Some (js ''Please upload an image and provide a prompt.'')\<rparr>
      | Some f \<Rightarrow>
          if prompt s = [] then s\<lparr>error := Some (js ''Please upload an image and provide a prompt.'')\<rparr>
          else s\<lparr>isLoading := True, error := None, generatedImageUrl := None,
                 inFlight := inFlight s @ [Reading f (prompt s)]\<rparr>)"

text \<open>The \<open>catch\<close> block of \<open>handleSubmit\<close>: the message it shows.\<close>

definition errorMessage :: "js_value \<Rightarrow> jsstring" where
  "errorMessage err = (case err of JsError m \<Rightarrow> m | OtherValue \<Rightarrow> js ''An unknown error occurred.'')"

text \<open>
  The end of a run: the result is stored, or the \<open>catch\<close> block stores the message; then
  \<open>finally\<close> clears the loading flag.
\<close>

definition settle :: "js_value + jsstring \<Rightarrow> app \<Rightarrow> app" where
  "settle r s =
     (case r of
        Inr resultUrl \<Rightarrow> s\<lparr>generatedImageUrl := Some resultUrl\<rparr>
      | Inl err \<Rightarrow> s\<lparr>error := Some (errorMessage err)\<rparr>)
     \<lparr>isLoading := False\<rparr>"

text \<open>
  The run resumes when the file read has settled: it parses the data URL and calls
  \<open>editImage\<close>, which suspends it again at the remote call.
\<close>

definition readSettled :: "js_file \<Rightarrow> jsstring \<Rightarrow> reader_event \<Rightarrow> app \<Rightarrow> app" where
  "readSettled f p ev s =
     (let s' = s\<lparr>inFlight := remove1 (Reading f p) (inFlight s)\<rparr>
      in case fileToDataUrl ev of
           Rejected e \<Rightarrow> settle (Inl e) s'
         | Resolved dataUrl \<Rightarrow>
             (case parseDataUrl dataUrl of
                Inl e \<Rightarrow> settle (Inl e) s'
              | Inr d \<Rightarrow>
                  s'\<lparr>inFlight := inFlight s' @ [Requesting (editImage_request (base64 d) (mimeType d) p)]\<rparr>))"

text \<open>The run resumes when the remote call has settled, and ends.\<close>

definition serviceSettled :: "generate_request \<Rightarrow> response settled \<Rightarrow> app \<Rightarrow> app" where
  "serviceSettled req outcome s =
     settle (editImage_settle outcome) (s\<lparr>inFlight := remove1 (Requesting req) (inFlight s)\<rparr>)"

text \<open>
  One whole run of \<open>handleSubmit\<close>, with nothing else happening in between: \<open>ev\<close> is how
  the file read settles and \<open>generateContent\<close> how the remote call settles.
\<close>

definition submitEdit ::
  "reader_event \<Rightarrow> (generate_request \<Rightarrow> response settled) \<Rightarrow> app \<Rightarrow> app"
where
  "submitEdit ev generateContent s =
     (case imageFile s of
        None \<Rightarrow> handleSubmit s
      | Some f \<Rightarrow>
          if prompt s = [] then handleSubmit s
          else
            (let p = prompt s; s1 = readSettled f p ev (handleSubmit s)
             in case fileToDataUrl ev of
                  Rejected e \<Rightarrow> s1
                | Resolved dataUrl \<Rightarrow>
                    (case parseDataUrl dataUrl of
                       Inl e \<Rightarrow> s1
                     | Inr d \<Rightarrow>
                         (let req = editImage_request (base64 d) (mimeType d) p
                          in serviceSettled req (generateContent req) s1))))"

text \<open>
  What the \<open>try\<close> block of \<open>handleSubmit\<close> ends with, for the file read and the remote
  call settling as given: the result URL, or the value thrown.
\<close>

definition handleSubmit_try ::
  "reader_event \<Rightarrow> (generate_request \<Rightarrow> response settled) \<Rightarrow> jsstring \<Rightarrow> js_value + jsstring"
where
  "handleSubmit_try ev generateContent p =
     (case fileToDataUrl ev of
        Rejected e \<Rightarrow> Inl e
      | Resolved dataUrl \<Rightarrow>
          (case parseDataUrl dataUrl of
             Inl e \<Rightarrow> Inl e
           | Inr d \<Rightarrow> editImage generateContent (base64 d) (mimeType d) p))"

subsection \<open>The controls, as rendered\<close>

text \<open>
  The button has \<open>disabled={isLoading || !imageFile || !prompt}\<close>, the file input and
  the text area have \<open>disabled={isLoading}\<close>; a disabled control calls no handler.
\<close>

definition clickGenerate :: "app \<Rightarrow> app" where
  "clickGenerate s =
     (if isLoading s \<or> imageFile s = None \<or> prompt s = [] then s else handleSubmit s)"

definition changeFile :: "js_file list option \<Rightarrow> app \<Rightarrow> app" where
  "changeFile files s = (if isLoading s then s else handleImageChange files s)"

definition typePrompt :: "jsstring \<Rightarrow> app \<Rightarrow> app" where
  "typePrompt t s = (if isLoading s then s else setPrompt t s)"

text \<open>
  What can happen to the mounted component: the user acts on a control, or an awaited
  promise of a suspended run settles. Effects run after each.
\<close>

datatype event =
    ClickGenerate
  | ChangeFile "js_file list option"
  | TypePrompt jsstring
  | ReadDone js_file jsstring reader_event
  | ServiceDone generate_request "response settled"

definition fire :: "event \<Rightarrow> app \<Rightarrow> app" where
  "fire e s =
     runEffects
       (case e of
          ClickGenerate \<Rightarrow> clickGenerate s
        | ChangeFile files \<Rightarrow> changeFile files s
        | TypePrompt t \<Rightarrow> typePrompt t s
        | ReadDone f p ev \<Rightarrow>
            if Reading f p \<in> set (inFlight s) then readSettled f p ev s else s
        | ServiceDone req outcome \<Rightarrow>
            if Requesting req \<in> set (inFlight s) then serviceSettled req outcome s else s)"

definition run :: "event list \<Rightarrow> app" where
  "run es = foldl (\<lambda>s e. fire e s) initial es"

subsection \<open>Example values\<close>

text \<open>A PNG file of three bytes, and the state after the user has picked it.\<close>

definition example_file :: js_file where
  "example_file = \<lparr>file_bytes = [0x4D, 0x61, 0x6E], file_type = js ''image/png''\<rparr>"

definition picked :: app where
  "picked = fire (ChangeFile (Some [example_file])) initial"

text \<open>A response with a text part only, and one with a text part before two images.\<close>

definition text_only :: response where
  "text_only =
     \<lparr>candidates = Some [\<lparr>candidate_content = Some \<lparr>parts = Some
        [\<lparr>inlineData = None, part_text = Some (js ''I cannot edit this image.'')\<rparr>]\<rparr>\<rparr>]\<rparr>"

definition text_then_images :: response where
  "text_then_images =
     \<lparr>candidates = Some [\<lparr>candidate_content = Some \<lparr>parts = Some
        [\<lparr>inlineData = None, part_text = Some (js ''Here is your image'')\<rparr>,
         \<lparr>inlineData = Some \<lparr>data = Some (js ''TWFu''), blob_mimeType = Some (js ''image/jpeg'')\<rparr>,
          part_text = None\<rparr>,
         \<lparr>inlineData = Some \<lparr>data = Some (js ''TQ==''), blob_mimeType = None\<rparr>,
          part_text = None\<rparr>]\<rparr>\<rparr>]\<rparr>"

text \<open>A response whose only part is an image with no MIME type.\<close>

definition untyped_image :: response where
  "untyped_image =
     \<lparr>candidates = Some [\<lparr>candidate_content = Some \<lparr>parts = Some
        [\<lparr>inlineData = Some \<lparr>data = Some (js ''TQ==''), blob_mimeType = None\<rparr>,
          part_text = None\<rparr>]\<rparr>\<rparr>]\<rparr>"

section \<open>Properties of the codec\<close>

subsection \<open>Literals and the greedy group\<close>

lemma lit_Some_iff: "lit p s = Some r \<longleftrightarrow> s = p @ r"
  by (induction p s rule: lit.induct) auto

lemma lit_append: "lit p (p @ r) = Some r"
  by (simp add: lit_Some_iff)

lemma greedy_None_iff:
  "greedy n k s = None \<longleftrightarrow> (\<forall>i. 1 \<le> i \<and> i \<le> n \<longrightarrow> k (drop i s) = None)"
proof (induction n)
  case 0
  then show ?case by simp
next
  case (Suc n)
  show ?case
  proof (cases "k (drop (Suc n) s)")
    case None
    have "(\<forall>i. 1 \<le> i \<and> i \<le> Suc n \<longrightarrow> k (drop i s) = None)
          \<longleftrightarrow> (\<forall>i. 1 \<le> i \<and> i \<le> n \<longrightarrow> k (drop i s) = None)"
      using None by (metis le_Suc_eq)
    with None Suc show ?thesis by simp
  next
    case (Some r)
    then have "\<not> (\<forall>i. 1 \<le> i \<and> i \<le> Suc n \<longrightarrow> k (drop i s) = None)"
      by (metis le_refl le_add1 plus_1_eq_Suc option.distinct(1))
    with Some show ?thesis by simp
  qed
qed

lemma greedy_SomeD:
  "greedy n k s = Some (g, r) \<Longrightarrow>
   \<exists>i. 1 \<le> i \<and> i \<le> n \<and> g = take i s \<and> k (drop i s) = Some r"
proof (induction n)
  case 0
  then show ?case by simp
next
  case (Suc n)
  show ?case
  proof (cases "k (drop (Suc n) s)")
    case None
    with Suc.prems have "greedy n k s = Some (g, r)" by simp
    from Suc.IH [OF this] show ?thesis by (metis le_Suc_eq)
  next
    case (Some r')
    with Suc.prems have "g = take (Suc n) s" "r' = r" by simp_all
    with Some show ?thesis by (metis le_refl le_add1 plus_1_eq_Suc)
  qed
qed

lemma greedy_eqI:
  assumes "1 \<le> i" "i \<le> n" "k (drop i s) = Some r"
    and "\<forall>j. i < j \<and> j \<le> n \<longrightarrow> k (drop j s) = None"
  shows "greedy n k s = Some (take i s, r)"
  using assms
proof (induction n)
  case 0
  then show ?case by simp
next
  case (Suc n)
  show ?case
  proof (cases "i = Suc n")
    case True
    with Suc.prems show ?thesis by simp
  next
    case False
    with Suc.prems have "i \<le> n" "k (drop (Suc n) s) = None" by auto
    moreover from Suc.prems have "\<forall>j. i < j \<and> j \<le> n \<longrightarrow> k (drop j s) = None" by auto
    ultimately show ?thesis using Suc.IH Suc.prems(1,3) by simp
  qed
qed

lemma takeWhile_all: "list_all P xs \<Longrightarrow> takeWhile P xs = xs"
  by (induction xs) auto

lemma dot_plus_end_iff:
  "dot_plus end_anchor s = Some (g, u) \<longleftrightarrow> s \<noteq> [] \<and> list_all dot s \<and> g = s"
proof
  assume "dot_plus end_anchor s = Some (g, u)"
  then obtain i where i: "1 \<le> i" "i \<le> length (takeWhile dot s)" "g = take i s"
      "end_anchor (drop i s) = Some u"
    unfolding dot_plus_def by (blast dest: greedy_SomeD)
  from i(4) have "length s \<le> i" by (simp add: end_anchor_def split: if_splits)
  moreover have "length (takeWhile dot s) \<le> length s" by (rule length_takeWhile_le)
  ultimately have eq: "length (takeWhile dot s) = length s" "i = length s" using i(2) by auto
  then have "takeWhile dot s = s"
    by (metis takeWhile_eq_take take_all_iff le_refl)
  then have "list_all dot s"
    by (metis list_all_iff set_takeWhileD)
  with eq i show "s \<noteq> [] \<and> list_all dot s \<and> g = s" by auto
next
  assume a: "s \<noteq> [] \<and> list_all dot s \<and> g = s"
  then have tw: "takeWhile dot s = s" by (simp add: takeWhile_all)
  have "greedy (length s) end_anchor s = Some (take (length s) s, ())"
    using a by (intro greedy_eqI) (auto simp: end_anchor_def Suc_le_eq)
  with a show "dot_plus end_anchor s = Some (g, u)" unfolding dot_plus_def tw by simp
qed

lemma after_type_Some_iff:
  "after_type s = Some p \<longleftrightarrow> s = js '';base64,'' @ p \<and> p \<noteq> [] \<and> list_all dot p"
proof (cases "lit (js '';base64,'') s")
  case None
  then have "s \<noteq> js '';base64,'' @ p" by (metis lit_append option.distinct(1))
  with None show ?thesis by (simp add: after_type_def)
next
  case (Some s')
  then have s: "s = js '';base64,'' @ s'" by (simp add: lit_Some_iff)
  show ?thesis
  proof (cases "dot_plus end_anchor s'")
    case None
    then have "\<not> (s' \<noteq> [] \<and> list_all dot s')"
      using dot_plus_end_iff [of s' s' "()"] by simp
    with None Some s show ?thesis by (auto simp: after_type_def)
  next
    case (Some a)
    obtain g u where a: "a = (g, u)" by (cases a)
    with Some have "s' \<noteq> [] \<and> list_all dot s' \<and> g = s'" by (simp add: dot_plus_end_iff)
    with Some a s \<open>lit (js '';base64,'') s = Some s'\<close> show ?thesis
      by (auto simp: after_type_def)
  qed
qed

lemma dot_separator: "list_all dot (js '';base64,'')"
  by (simp add: js_def dot_def isLineTerminator_def)

lemma data_url_regex_SomeD:
  assumes "data_url_regex s = Some (t, p)"
  shows "s = js ''data:'' @ t @ js '';base64,'' @ p \<and> t \<noteq> [] \<and> p \<noteq> [] \<and>
         list_all dot t \<and> list_all dot p"
proof -
  from assms obtain s' where s': "lit (js ''data:'') s = Some s'" "dot_plus after_type s' = Some (t, p)"
    by (auto simp: data_url_regex_def split: option.splits)
  from s'(2) obtain i where i: "1 \<le> i" "i \<le> length (takeWhile dot s')" "t = take i s'"
      "after_type (drop i s') = Some p"
    unfolding dot_plus_def by (blast dest: greedy_SomeD)
  from i(4) have tail: "drop i s' = js '';base64,'' @ p" "p \<noteq> []" "list_all dot p"
    by (simp_all add: after_type_Some_iff)
  have "s' = take i s' @ drop i s'" by simp
  with tail(1) i(3) have "s' = t @ js '';base64,'' @ p" by simp
  with s'(1) have whole: "s = js ''data:'' @ t @ js '';base64,'' @ p" by (simp add: lit_Some_iff)
  have "length (takeWhile dot s') \<le> length s'" by (rule length_takeWhile_le)
  with i(1,2,3) have "t \<noteq> []" by auto
  have "t = take i (takeWhile dot s')"
    using i(2,3) by (metis takeWhile_eq_take take_take min.absorb1)
  then have "set t \<subseteq> set (takeWhile dot s')" by (metis set_take_subset)
  then have "list_all dot t" by (auto simp: list_all_iff dest: set_takeWhileD)
  with whole \<open>t \<noteq> []\<close> tail show ?thesis by simp
qed

lemma data_url_regex_pattern:
  assumes "t \<noteq> []" "p \<noteq> []" "list_all dot t" "list_all dot p"
  shows "data_url_regex (js ''data:'' @ t @ js '';base64,'' @ p) \<noteq> None"
proof -
  let ?s' = "t @ js '';base64,'' @ p"
  have "list_all dot ?s'" using assms dot_separator by simp
  then have tw: "takeWhile dot ?s' = ?s'" by (rule takeWhile_all)
  have "after_type (drop (length t) ?s') = Some p"
    using assms by (simp add: after_type_Some_iff)
  moreover have "1 \<le> length t" using assms(1) by (simp add: Suc_le_eq)
  moreover have "length t \<le> length ?s'" by simp
  ultimately have "greedy (length ?s') after_type ?s' \<noteq> None"
    unfolding greedy_None_iff by (metis option.distinct(1))
  then have "dot_plus after_type ?s' \<noteq> None" unfolding dot_plus_def tw .
  then show ?thesis by (simp add: data_url_regex_def lit_append)
qed

lemma lit_semicolon_None: "0x3B \<notin> set s \<Longrightarrow> lit (js '';base64,'') s = None"
  by (cases s) (auto simp: js_def)

lemma data_url_regex_round_trip:
  assumes "t \<noteq> []" "p \<noteq> []" "list_all dot t" "list_all dot p" "0x3B \<notin> set p"
  shows "data_url_regex (js ''data:'' @ t @ js '';base64,'' @ p) = Some (t, p)"
proof -
  let ?sep = "js '';base64,''"
  let ?s' = "t @ ?sep @ p"
  have "list_all dot ?s'" using assms dot_separator by simp
  then have tw: "takeWhile dot ?s' = ?s'" by (rule takeWhile_all)
  have here: "after_type (drop (length t) ?s') = Some p"
    using assms by (simp add: after_type_Some_iff)
  have later: "after_type (drop j ?s') = None" if "length t < j" for j
  proof -
    from that obtain d where d: "j = Suc (length t + d)" using less_imp_Suc_add by blast
    have "drop j ?s' = drop (Suc d) (?sep @ p)" by (simp add: d)
    also have "\<dots> = drop d (js ''base64,'' @ p)" by (simp add: js_def)
    finally have eq: "drop j ?s' = drop d (js ''base64,'' @ p)" .
    have "set (drop j ?s') \<subseteq> set (js ''base64,'' @ p)"
      unfolding eq by (rule set_drop_subset)
    moreover have "0x3B \<notin> set (js ''base64,'' @ p)" using assms(5) by (simp add: js_def)
    ultimately have "0x3B \<notin> set (drop j ?s')" by blast
    then show ?thesis by (simp add: after_type_def lit_semicolon_None)
  qed
  have "greedy (length ?s') after_type ?s' = Some (take (length t) ?s', p)"
    using assms(1) here later by (intro greedy_eqI) (auto simp: Suc_le_eq)
  then have "dot_plus after_type ?s' = Some (t, p)" unfolding dot_plus_def tw by simp
  then show ?thesis by (simp add: data_url_regex_def lit_append)
qed

subsection \<open>Base64 text\<close>

lemma b64_char_alphabet: "b64_char n \<in> set (js b64_alphabet)"
proof -
  have "length b64_alphabet = 64" by (simp add: b64_alphabet_def)
  then have "b64_alphabet ! (n mod 64) \<in> set b64_alphabet" by (simp add: nth_mem)
  then show ?thesis unfolding b64_char_def js_def by simp
qed

lemma alphabet_plain: "\<forall>c \<in> set (js b64_alphabet). dot c \<and> c \<noteq> 0x3B"
  by (simp add: js_def b64_alphabet_def dot_def isLineTerminator_def)

lemma b64_char_plain: "dot (b64_char n) \<and> b64_char n \<noteq> 0x3B"
  using b64_char_alphabet alphabet_plain by blast

lemma b64_pad_plain: "dot b64_pad \<and> b64_pad \<noteq> 0x3B"
  by (simp add: b64_pad_def dot_def isLineTerminator_def)

lemma base64_encode_plain: "list_all (\<lambda>c. dot c \<and> c \<noteq> 0x3B) (base64_encode bs)"
  by (induction bs rule: base64_encode.induct) (simp_all add: Let_def b64_char_plain b64_pad_plain)

lemma base64_encode_nonempty: "bs \<noteq> [] \<Longrightarrow> base64_encode bs \<noteq> []"
  by (cases bs rule: base64_encode.cases) (simp_all add: Let_def)

lemma base64_encode_Man: "base64_encode [0x4D, 0x61, 0x6E] = js ''TWFu''"
  by (simp add: js_def b64_char_def b64_alphabet_def)
lemma base64_encode_Ma: "base64_encode [0x4D, 0x61] = js ''TWE=''"
  by (simp add: js_def b64_char_def b64_alphabet_def b64_pad_def)
lemma base64_encode_M: "base64_encode [0x4D] = js ''TQ==''"
  by (simp add: js_def b64_char_def b64_alphabet_def b64_pad_def)
lemma base64_encode_four_bytes: "base64_encode [0xFF, 0xFE, 0xFD, 0xFC] = js ''//79/A==''"
  by (simp add: js_def b64_char_def b64_alphabet_def b64_pad_def)


subsection \<open>Round trip\<close>

text \<open>
  Claim C4. Decoding an encoded file gives back the MIME type and the base64 text of the
  bytes: for every non-empty byte sequence \<open>b\<close> and every MIME type \<open>m\<close> that is not
  empty and holds no line terminator (every valid MIME type is such a string),
  \<open>parseDataUrl (encode b m)\<close> returns \<open>m\<close> and \<open>base64_encode b\<close>.
\<close>

theorem codec_round_trip:
  assumes "b \<noteq> []" and "m \<noteq> []" and "list_all dot m"
  shows "fileToDataUrl (OnLoad (encode b m)) = Resolved (encode b m)
         \<and> parseDataUrl (encode b m) = Inr \<lparr>mimeType = m, base64 = base64_encode b\<rparr>"
proof -
  have plain: "list_all (\<lambda>c. dot c \<and> c \<noteq> 0x3B) (base64_encode b)" by (rule base64_encode_plain)
  then have "list_all dot (base64_encode b)" "0x3B \<notin> set (base64_encode b)"
    by (auto simp: list_all_iff)
  with assms have "data_url_regex (encode b m) = Some (m, base64_encode b)"
    unfolding encode_def by (intro data_url_regex_round_trip) (simp_all add: base64_encode_nonempty)
  then show ?thesis by (simp add: parseDataUrl_def fileToDataUrl_def)
qed

theorem codec_round_trip_witness:
  "[0x4D, 0x61, 0x6E] \<noteq> ([] :: 8 word list) \<and> js ''image/png'' \<noteq> []
   \<and> list_all dot (js ''image/png'')
   \<and> encode [0x4D, 0x61, 0x6E] (js ''image/png'') = js ''data:image/png;base64,TWFu''
   \<and> parseDataUrl (js ''data:image/png;base64,TWFu'')
       = Inr \<lparr>mimeType = js ''image/png'', base64 = js ''TWFu''\<rparr>"
proof -
  have h1: "[0x4D, 0x61, 0x6E] \<noteq> ([] :: 8 word list)" by simp
  have h2: "js ''image/png'' \<noteq> []" by code_simp
  have h3: "list_all dot (js ''image/png'')" by code_simp
  note h = h1 h2 h3
  have b: "base64_encode [0x4D, 0x61, 0x6E] = js ''TWFu''"
    by (simp add: js_def b64_char_def b64_alphabet_def)
  have e: "encode [0x4D, 0x61, 0x6E] (js ''image/png'') = js ''data:image/png;base64,TWFu''"
    unfolding encode_def b by (simp add: js_def)
  from codec_round_trip [OF h, THEN conjunct2]
  have "parseDataUrl (encode [0x4D, 0x61, 0x6E] (js ''image/png''))
          = Inr \<lparr>mimeType = js ''image/png'', base64 = js ''TWFu''\<rparr>"
    unfolding b .
  then have "parseDataUrl (js ''data:image/png;base64,TWFu'')
          = Inr \<lparr>mimeType = js ''image/png'', base64 = js ''TWFu''\<rparr>"
    unfolding e .
  with h e show ?thesis by blast
qed

subsection \<open>Format errors\<close>

text \<open>Some inputs the expression decides: the first group is greedy, a line terminator
  and an empty type make the match fail, and the match is anchored at the start.\<close>

lemma parseDataUrl_first_group_greedy: "parseDataUrl (js ''data:a;base64,b;base64,c'') = Inr \<lparr>mimeType = js ''a;base64,b'', base64 = js ''c''\<rparr>"
  by code_simp

lemma parseDataUrl_line_terminator: "parseDataUrl (js ''data:a;base64,b'' @ [0x0A]) = Inl (JsError (js ''Invalid data URL format''))"
  by code_simp

lemma parseDataUrl_empty_type: "parseDataUrl (js ''data:;base64,b'') = Inl (JsError (js ''Invalid data URL format''))"
  by code_simp

lemma parseDataUrl_not_at_start: "parseDataUrl (js ''xdata:a;base64,b'') = Inl (JsError (js ''Invalid data URL format''))"
  by code_simp


lemma single_line_matches_pattern: "single_line_data_url s \<Longrightarrow> matches_data_url_pattern s"
  unfolding single_line_data_url_def matches_data_url_pattern_def by blast

text \<open>
  Claim C5 as stated fails: \<open>parseDataUrl\<close> does not succeed on every string of the
  pattern \<open>data:<type>;base64,<payload>\<close>. A string that has the prefix, the semicolon and
  the comma is refused when a line terminator follows the payload, and when the payload
  is empty.
\<close>

theorem parseDataUrl_pattern_counterexample:
  "matches_data_url_pattern (js ''data:a;base64,b'' @ [0x0A])
   \<and> parseDataUrl (js ''data:a;base64,b'' @ [0x0A]) = Inl (JsError (js ''Invalid data URL format''))
   \<and> matches_data_url_pattern (js ''data:image/png;base64,'')
   \<and> parseDataUrl (js ''data:image/png;base64,'') = Inl (JsError (js ''Invalid data URL format''))"
proof -
  have "js ''data:a;base64,b'' @ [0x0A] = js ''data:'' @ js ''a'' @ js '';base64,'' @ (js ''b'' @ [0x0A])"
    by (simp add: js_def)
  then have 1: "matches_data_url_pattern (js ''data:a;base64,b'' @ [0x0A])"
    unfolding matches_data_url_pattern_def by blast
  have "js ''data:image/png;base64,'' = js ''data:'' @ js ''image/png'' @ js '';base64,'' @ []"
    by (simp add: js_def)
  then have 2: "matches_data_url_pattern (js ''data:image/png;base64,'')"
    unfolding matches_data_url_pattern_def by blast
  have 3: "parseDataUrl (js ''data:a;base64,b'' @ [0x0A]) = Inl (JsError (js ''Invalid data URL format''))"
    by code_simp
  have 4: "parseDataUrl (js ''data:image/png;base64,'') = Inl (JsError (js ''Invalid data URL format''))"
    by code_simp
  from 1 2 3 4 show ?thesis by blast
qed

text \<open>
  Claim C5, amended. \<open>parseDataUrl\<close> is a function of its argument alone. It returns the
  two groups on every string of the form \<open>data:<type>;base64,<payload>\<close> in which the
  type and the payload are not empty and hold no line terminator, and the parts it
  returns make up the input; on every other string it fails with the error whose message
  is \<open>Invalid data URL format\<close>. So it fails on every string that lacks the prefix or
  the separator with its semicolon and comma, among them the two examples of the spec.
\<close>

theorem parseDataUrl_format_error:
  "(single_line_data_url s \<longrightarrow>
      (\<exists>d. parseDataUrl s = Inr d \<and> s = js ''data:'' @ mimeType d @ js '';base64,'' @ base64 d))
   \<and> (\<not> single_line_data_url s \<longrightarrow>
      parseDataUrl s = Inl (JsError (js ''Invalid data URL format'')))
   \<and> (\<not> matches_data_url_pattern s \<longrightarrow>
      parseDataUrl s = Inl (JsError (js ''Invalid data URL format'')))
   \<and> parseDataUrl (js ''not-a-data-url'') = Inl (JsError (js ''Invalid data URL format''))
   \<and> parseDataUrl (js ''data:text/plain,hello'') = Inl (JsError (js ''Invalid data URL format''))"
proof -
  have yes: "\<exists>d. parseDataUrl s = Inr d \<and> s = js ''data:'' @ mimeType d @ js '';base64,'' @ base64 d"
    if "single_line_data_url s"
  proof -
    from that obtain t' p' where "t' \<noteq> []" "p' \<noteq> []" "list_all dot t'" "list_all dot p'"
        "s = js ''data:'' @ t' @ js '';base64,'' @ p'"
      unfolding single_line_data_url_def by blast
    then have "data_url_regex s \<noteq> None"
      using data_url_regex_pattern [of t' p'] by simp
    then obtain t p where tp: "data_url_regex s = Some (t, p)" by auto
    from data_url_regex_SomeD [OF this] have "s = js ''data:'' @ t @ js '';base64,'' @ p" by simp
    with tp show ?thesis by (simp add: parseDataUrl_def)
  qed
  have no: "parseDataUrl s = Inl (JsError (js ''Invalid data URL format''))"
    if "\<not> single_line_data_url s"
  proof -
    have "data_url_regex s = None"
    proof (cases "data_url_regex s")
      case None
      then show ?thesis .
    next
      case (Some a)
      obtain t p where "a = (t, p)" by (cases a)
      with Some have "single_line_data_url s"
        unfolding single_line_data_url_def using data_url_regex_SomeD [of s t p] by blast
      with that show ?thesis by simp
    qed
    then show ?thesis by (simp add: parseDataUrl_def)
  qed
  have markers: "parseDataUrl s = Inl (JsError (js ''Invalid data URL format''))"
    if "\<not> matches_data_url_pattern s"
    using that no single_line_matches_pattern by blast
  have e1: "parseDataUrl (js ''not-a-data-url'') = Inl (JsError (js ''Invalid data URL format''))"
    by code_simp
  have e2: "parseDataUrl (js ''data:text/plain,hello'') = Inl (JsError (js ''Invalid data URL format''))"
    by code_simp
  from yes no markers e1 e2 show ?thesis by blast
qed

theorem parseDataUrl_format_error_witness:
  "single_line_data_url (js ''data:image/png;base64,TWFu'')
   \<and> parseDataUrl (js ''data:image/png;base64,TWFu'')
       = Inr \<lparr>mimeType = js ''image/png'', base64 = js ''TWFu''\<rparr>
   \<and> \<not> single_line_data_url (js ''data:text/plain;hello'')
   \<and> parseDataUrl (js ''data:text/plain;hello'') = Inl (JsError (js ''Invalid data URL format''))
   \<and> \<not> matches_data_url_pattern (js ''xdata:a;base64,b'')
   \<and> parseDataUrl (js ''xdata:a;base64,b'') = Inl (JsError (js ''Invalid data URL format''))"
proof -
  let ?good = "js ''data:image/png;base64,TWFu''"
  let ?bad = "js ''data:text/plain;hello''"
  let ?off = "js ''xdata:a;base64,b''"
  have good: "parseDataUrl ?good = Inr \<lparr>mimeType = js ''image/png'', base64 = js ''TWFu''\<rparr>"
    by code_simp
  have bad: "parseDataUrl ?bad = Inl (JsError (js ''Invalid data URL format''))"
    by code_simp
  have 1: "single_line_data_url ?good"
  proof (rule ccontr)
    assume "\<not> single_line_data_url ?good"
    with parseDataUrl_format_error [of ?good]
    have "parseDataUrl ?good = Inl (JsError (js ''Invalid data URL format''))" by blast
    then show False unfolding good by simp
  qed
  have 2: "\<not> single_line_data_url ?bad"
  proof
    assume "single_line_data_url ?bad"
    with parseDataUrl_format_error [of ?bad]
    obtain d where "parseDataUrl ?bad = Inr d" by blast
    then show False unfolding bad by simp
  qed
  have 3: "\<not> matches_data_url_pattern ?off"
    by (simp add: matches_data_url_pattern_def js_def)
  with parseDataUrl_format_error [of ?off]
  have 4: "parseDataUrl ?off = Inl (JsError (js ''Invalid data URL format''))" by blast
  from 1 2 3 4 good bad show ?thesis by blast
qed

section \<open>Properties of the service client\<close>

lemma scan_parts_first:
  "list_all (\<lambda>q. inlineData q = None) pre \<Longrightarrow> inlineData p = Some d \<Longrightarrow>
   scan_parts (pre @ p # post) =
     Some (js ''data:'' @ string_or (blob_mimeType d) (js ''image/png'') @ js '';base64,''
           @ interpolate (data d))"
  by (induction pre) simp_all

lemma scan_parts_none:
  "list_all (\<lambda>q. inlineData q = None) ps \<Longrightarrow> scan_parts ps = None"
  by (induction ps) simp_all

lemma scan_parts_None_iff:
  "scan_parts ps = None \<longleftrightarrow> list_all (\<lambda>q. inlineData q = None) ps"
  by (induction ps) (auto split: option.splits)

text \<open>
  Claim C6. When the remote call resolves with a response whose list of parts holds a part
  with inline data, \<open>editImage\<close> returns the data URL built from the first such part in
  list order: the part's MIME type, or \<open>image/png\<close> when the part has none (an empty
  type counts as none, as \<open>||\<close> treats it), and the part's data (a missing data field is
  written out as \<open>undefined\<close> by the template literal).
\<close>

theorem editImage_first_inline_part:
  assumes "generateContent (editImage_request b m p) = Resolved r"
    and "response_parts r = pre @ q # post"
    and "list_all (\<lambda>x. inlineData x = None) pre"
    and "inlineData q = Some d"
  shows "editImage generateContent b m p =
     Inr (js ''data:''
          @ (case blob_mimeType d of
               None \<Rightarrow> js ''image/png''
             | Some t \<Rightarrow> if t = [] then js ''image/png'' else t)
          @ js '';base64,''
          @ (case data d of None \<Rightarrow> js ''undefined'' | Some x \<Rightarrow> x))"
proof -
  have "scan_parts (response_parts r) =
     Some (js ''data:'' @ string_or (blob_mimeType d) (js ''image/png'') @ js '';base64,''
           @ interpolate (data d))"
    unfolding assms(2) using assms(3,4) by (rule scan_parts_first)
  then show ?thesis
    using assms(1)
    by (simp add: editImage_def editImage_settle_def editImage_try_def string_or_def
        interpolate_def)
qed

theorem editImage_first_inline_part_witness:
  "editImage (\<lambda>_. Resolved text_then_images) (js ''TWE='') (js ''image/png'') (js ''make it blue'')
   = Inr (js ''data:'' @ js ''image/jpeg'' @ js '';base64,'' @ js ''TWFu'')
   \<and> editImage (\<lambda>_. Resolved untyped_image) (js ''TWE='') (js ''image/png'') (js ''make it blue'')
   = Inr (js ''data:'' @ js ''image/png'' @ js '';base64,'' @ js ''TQ=='')"
proof -
  let ?txt = "\<lparr>inlineData = None, part_text = Some (js ''Here is your image'')\<rparr>"
  let ?img = "\<lparr>inlineData = Some \<lparr>data = Some (js ''TWFu''), blob_mimeType = Some (js ''image/jpeg'')\<rparr>,
          part_text = None\<rparr>"
  let ?img2 = "\<lparr>inlineData = Some \<lparr>data = Some (js ''TQ==''), blob_mimeType = None\<rparr>,
          part_text = None\<rparr>"
  have 1: "(\<lambda>_. Resolved text_then_images)
             (editImage_request (js ''TWE='') (js ''image/png'') (js ''make it blue''))
           = Resolved text_then_images" by simp
  have 2: "response_parts text_then_images = [?txt] @ ?img # [?img2]"
    by (simp add: response_parts_def text_then_images_def)
  have 3: "list_all (\<lambda>x. inlineData x = None) [?txt]" by simp
  have 4: "inlineData ?img = Some \<lparr>data = Some (js ''TWFu''), blob_mimeType = Some (js ''image/jpeg'')\<rparr>"
    by simp
  have ne: "js ''image/jpeg'' \<noteq> []" by (simp add: js_def)
  have 5: "(\<lambda>_. Resolved untyped_image)
             (editImage_request (js ''TWE='') (js ''image/png'') (js ''make it blue''))
           = Resolved untyped_image" by simp
  have 6: "response_parts untyped_image = [] @ ?img2 # []"
    by (simp add: response_parts_def untyped_image_def)
  have 7: "list_all (\<lambda>x. inlineData x = None) ([] :: part list)" by simp
  have 8: "inlineData ?img2 = Some \<lparr>data = Some (js ''TQ==''), blob_mimeType = None\<rparr>"
    by simp
  from editImage_first_inline_part [OF 1 2 3 4] editImage_first_inline_part [OF 5 6 7 8]
  show ?thesis using ne by simp
qed

text \<open>
  Claim C7 as stated fails: the error for a response with no image is thrown inside the
  \<open>try\<close> block, so the \<open>catch\<close> block of \<open>editImage\<close> wraps it like a failure of the
  service. For a text-only response \<open>editImage\<close> fails with the very value it fails with
  when the remote call throws an error with the message
  \<open>No image data found in the Gemini API response.\<close>; its message starts with the marker
  of service errors.
\<close>

theorem editImage_no_image_counterexample:
  "editImage (\<lambda>_. Resolved text_only) (js ''TWFu'') (js ''image/png'') (js ''make it blue'')
   = editImage (\<lambda>_. Rejected (JsError (js ''No image data found in the Gemini API response.'')))
       (js ''TWFu'') (js ''image/png'') (js ''make it blue'')
   \<and> editImage (\<lambda>_. Resolved text_only) (js ''TWFu'') (js ''image/png'') (js ''make it blue'')
   = Inl (JsError (js ''Failed to edit image: No image data found in the Gemini API response.''))"
  by (simp add: editImage_def editImage_settle_def editImage_try_def editImage_catch_def
      response_parts_def text_only_def) (simp add: js_def)

section \<open>Properties of a run of \<open>handleSubmit\<close>\<close>

lemma submitEdit_fields:
  assumes "imageFile s = Some f" and "prompt s \<noteq> []"
  shows "isLoading (submitEdit ev gc s) = False"
    and "error (submitEdit ev gc s) =
           (case handleSubmit_try ev gc (prompt s) of Inl e \<Rightarrow> Some (errorMessage e) | Inr u \<Rightarrow> None)"
    and "generatedImageUrl (submitEdit ev gc s) =
           (case handleSubmit_try ev gc (prompt s) of Inl e \<Rightarrow> None | Inr u \<Rightarrow> Some u)"
  using assms
  by (auto simp: submitEdit_def handleSubmit_def readSettled_def serviceSettled_def settle_def
      handleSubmit_try_def editImage_def Let_def
      split: settled.splits sum.splits)

lemma submitEdit_frame:
  assumes "imageFile s = Some f" and "prompt s \<noteq> []"
  shows "imageFile (submitEdit ev gc s) = imageFile s"
    and "imagePreviewUrl (submitEdit ev gc s) = imagePreviewUrl s"
    and "prompt (submitEdit ev gc s) = prompt s"
    and "revoked (submitEdit ev gc s) = revoked s"
  using assms
  by (auto simp: submitEdit_def handleSubmit_def readSettled_def serviceSettled_def settle_def
      Let_def split: settled.splits sum.splits)

lemma handleSubmit_enters_loading:
  "imageFile s = Some f \<Longrightarrow> prompt s \<noteq> [] \<Longrightarrow> isLoading (handleSubmit s)"
  by (simp add: handleSubmit_def)

lemma initial_prompt_nonempty: "initial_prompt \<noteq> []"
  by (simp add: initial_prompt_def)

lemma picked_fields:
  "imageFile picked = Some example_file" "prompt picked = initial_prompt"
  "imagePreviewUrl picked = Some (BlobUrl 0)" "isLoading picked = False"
  "error picked = None" "generatedImageUrl picked = None" "inFlight picked = []"
  "revoked picked = []" "cleanupUrl picked = Some (BlobUrl 0)"
  by (simp_all add: picked_def fire_def changeFile_def initial_def handleImageChange_def
      first_file_def createObjectURL_def runEffects_def)

lemma parse_example:
  "parseDataUrl (js ''data:image/png;base64,TWFu'')
     = Inr \<lparr>mimeType = js ''image/png'', base64 = js ''TWFu''\<rparr>"
  by code_simp

text \<open>
  Claim C7, amended. For every response in which no part carries inline data (text parts
  only, or no parts at all), \<open>editImage\<close> fails with the error whose message is
  \<open>Failed to edit image: No image data found in the Gemini API response.\<close>, the message
  of the no-image error behind the marker that service failures get too; a run of
  \<open>handleSubmit\<close> that gets such a response ends with this message as its error, no
  generated image and the loading flag cleared.
\<close>

theorem editImage_no_image:
  assumes "list_all (\<lambda>x. inlineData x = None) (response_parts r)"
  shows "(generateContent (editImage_request b m p) = Resolved r \<longrightarrow>
            editImage generateContent b m p =
              Inl (JsError (js ''Failed to edit image: ''
                            @ js ''No image data found in the Gemini API response.'')))
         \<and> (imageFile s = Some f \<and> prompt s \<noteq> [] \<and> parseDataUrl u = Inr d \<and>
            generateContent (editImage_request (base64 d) (mimeType d) (prompt s)) = Resolved r \<longrightarrow>
              error (submitEdit (OnLoad u) generateContent s) =
                Some (js ''Failed to edit image: ''
                      @ js ''No image data found in the Gemini API response.'')
              \<and> \<not> isLoading (submitEdit (OnLoad u) generateContent s)
              \<and> generatedImageUrl (submitEdit (OnLoad u) generateContent s) = None)"
proof -
  have e: "editImage gc b' m' p' =
           Inl (JsError (js ''Failed to edit image: '' @ js ''No image data found in the Gemini API response.''))"
    if "gc (editImage_request b' m' p') = Resolved r" for gc b' m' p'
    using assms that
    by (simp add: editImage_def editImage_settle_def editImage_try_def editImage_catch_def
        scan_parts_none)
  have "handleSubmit_try (OnLoad u) generateContent (prompt s) =
          Inl (JsError (js ''Failed to edit image: '' @ js ''No image data found in the Gemini API response.''))"
    if "parseDataUrl u = Inr d"
      "generateContent (editImage_request (base64 d) (mimeType d) (prompt s)) = Resolved r"
    using that e by (simp add: handleSubmit_try_def fileToDataUrl_def)
  with e show ?thesis
    by (simp add: submitEdit_fields errorMessage_def)
qed

theorem editImage_no_image_witness:
  "list_all (\<lambda>x. inlineData x = None) (response_parts text_only)
   \<and> editImage (\<lambda>_. Resolved text_only) (js ''TWFu'') (js ''image/png'') (js ''make it blue'')
       = Inl (JsError (js ''Failed to edit image: ''
                      @ js ''No image data found in the Gemini API response.''))
   \<and> imageFile picked = Some example_file \<and> prompt picked \<noteq> []
   \<and> parseDataUrl (js ''data:image/png;base64,TWFu'')
       = Inr \<lparr>mimeType = js ''image/png'', base64 = js ''TWFu''\<rparr>
   \<and> error (submitEdit (OnLoad (js ''data:image/png;base64,TWFu'')) (\<lambda>_. Resolved text_only) picked)
       = Some (js ''Failed to edit image: '' @ js ''No image data found in the Gemini API response.'')
   \<and> \<not> isLoading (submitEdit (OnLoad (js ''data:image/png;base64,TWFu'')) (\<lambda>_. Resolved text_only) picked)
   \<and> generatedImageUrl (submitEdit (OnLoad (js ''data:image/png;base64,TWFu'')) (\<lambda>_. Resolved text_only) picked)
       = None"
proof -
  have h: "list_all (\<lambda>x. inlineData x = None) (response_parts text_only)"
    by (simp add: response_parts_def text_only_def)
  have p: "prompt picked \<noteq> []" by (simp add: picked_fields initial_prompt_nonempty)
  note T = editImage_no_image [OF h, of "\<lambda>_. Resolved text_only" "js ''TWFu''" "js ''image/png''"
      "js ''make it blue''" picked example_file "js ''data:image/png;base64,TWFu''"
      "\<lparr>mimeType = js ''image/png'', base64 = js ''TWFu''\<rparr>"]
  from T h p parse_example picked_fields(1) show ?thesis by simp
qed

text \<open>
  Claim C8. When the remote call fails with an \<open>Error\<close> of message \<open>msg\<close>, \<open>editImage\<close>
  fails with the message \<open>Failed to edit image: \<close> followed by \<open>msg\<close> unchanged, and the
  run of \<open>handleSubmit\<close> ends with that text as its error. When the remote call fails
  with a value that is no \<open>Error\<close>, and so carries no message, the text is the fixed
  \<open>An unknown error occurred while editing the image.\<close>
\<close>

theorem service_failure_message:
  "(generateContent (editImage_request b m p) = Rejected (JsError msg) \<longrightarrow>
      editImage generateContent b m p = Inl (JsError (js ''Failed to edit image: '' @ msg)))
   \<and> (generateContent (editImage_request b m p) = Rejected OtherValue \<longrightarrow>
      editImage generateContent b m p =
        Inl (JsError (js ''An unknown error occurred while editing the image.'')))
   \<and> (imageFile s = Some f \<and> prompt s \<noteq> [] \<and> parseDataUrl u = Inr d \<and>
      generateContent (editImage_request (base64 d) (mimeType d) (prompt s)) = Rejected (JsError msg) \<longrightarrow>
        error (submitEdit (OnLoad u) generateContent s) = Some (js ''Failed to edit image: '' @ msg)
        \<and> \<not> isLoading (submitEdit (OnLoad u) generateContent s)
        \<and> generatedImageUrl (submitEdit (OnLoad u) generateContent s) = None)
   \<and> (imageFile s = Some f \<and> prompt s \<noteq> [] \<and> parseDataUrl u = Inr d \<and>
      generateContent (editImage_request (base64 d) (mimeType d) (prompt s)) = Rejected OtherValue \<longrightarrow>
        error (submitEdit (OnLoad u) generateContent s)
          = Some (js ''An unknown error occurred while editing the image.'')
        \<and> \<not> isLoading (submitEdit (OnLoad u) generateContent s)
        \<and> generatedImageUrl (submitEdit (OnLoad u) generateContent s) = None)"
proof -
  have e1: "editImage gc b' m' p' = Inl (JsError (js ''Failed to edit image: '' @ msg))"
    if "gc (editImage_request b' m' p') = Rejected (JsError msg)" for gc b' m' p'
    using that by (simp add: editImage_def editImage_settle_def editImage_try_def editImage_catch_def)
  have e2: "editImage gc b' m' p' = Inl (JsError (js ''An unknown error occurred while editing the image.''))"
    if "gc (editImage_request b' m' p') = Rejected OtherValue" for gc b' m' p'
    using that by (simp add: editImage_def editImage_settle_def editImage_try_def editImage_catch_def)
  have t1: "handleSubmit_try (OnLoad u) generateContent (prompt s) =
              Inl (JsError (js ''Failed to edit image: '' @ msg))"
    if "parseDataUrl u = Inr d"
      "generateContent (editImage_request (base64 d) (mimeType d) (prompt s)) = Rejected (JsError msg)"
    using that e1 by (simp add: handleSubmit_try_def fileToDataUrl_def)
  have t2: "handleSubmit_try (OnLoad u) generateContent (prompt s) =
              Inl (JsError (js ''An unknown error occurred while editing the image.''))"
    if "parseDataUrl u = Inr d"
      "generateContent (editImage_request (base64 d) (mimeType d) (prompt s)) = Rejected OtherValue"
    using that e2 by (simp add: handleSubmit_try_def fileToDataUrl_def)
  show ?thesis
    using e1 e2 t1 t2 by (simp add: submitEdit_fields errorMessage_def)
qed

theorem service_failure_message_witness:
  "editImage (\<lambda>_. Rejected (JsError (js ''quota exceeded''))) (js ''TWFu'') (js ''image/png'')
      (js ''make it blue'')
     = Inl (JsError (js ''Failed to edit image: '' @ js ''quota exceeded''))
   \<and> editImage (\<lambda>_. Rejected OtherValue) (js ''TWFu'') (js ''image/png'') (js ''make it blue'')
     = Inl (JsError (js ''An unknown error occurred while editing the image.''))
   \<and> imageFile picked = Some example_file \<and> prompt picked \<noteq> []
   \<and> parseDataUrl (js ''data:image/png;base64,TWFu'')
       = Inr \<lparr>mimeType = js ''image/png'', base64 = js ''TWFu''\<rparr>
   \<and> error (submitEdit (OnLoad (js ''data:image/png;base64,TWFu''))
         (\<lambda>_. Rejected (JsError (js ''quota exceeded''))) picked)
       = Some (js ''Failed to edit image: '' @ js ''quota exceeded'')
   \<and> error (submitEdit (OnLoad (js ''data:image/png;base64,TWFu''))
         (\<lambda>_. Rejected OtherValue) picked)
       = Some (js ''An unknown error occurred while editing the image.'')"
proof -
  have p: "prompt picked \<noteq> []" by (simp add: picked_fields initial_prompt_nonempty)
  note T1 = service_failure_message [of "\<lambda>_. Rejected (JsError (js ''quota exceeded''))"
      "js ''TWFu''" "js ''image/png''" "js ''make it blue''" "js ''quota exceeded''"
      picked example_file "js ''data:image/png;base64,TWFu''"
      "\<lparr>mimeType = js ''image/png'', base64 = js ''TWFu''\<rparr>"]
  note T2 = service_failure_message [of "\<lambda>_. Rejected OtherValue"
      "js ''TWFu''" "js ''image/png''" "js ''make it blue''" "js ''quota exceeded''"
      picked example_file "js ''data:image/png;base64,TWFu''"
      "\<lparr>mimeType = js ''image/png'', base64 = js ''TWFu''\<rparr>"]
  from T1 T2 p parse_example picked_fields(1) show ?thesis by simp
qed

text \<open>
  Claim C9. When no image is present or the prompt is empty, \<open>handleSubmit\<close> stores the
  message \<open>Please upload an image and provide a prompt.\<close> in \<open>error\<close> and does nothing
  else: the run ends there, the loading flag, the generated image and the suspended runs
  are what they were, and every other field is unchanged.
\<close>

theorem handleSubmit_validation:
  assumes "imageFile s = None \<or> prompt s = []"
  shows "handleSubmit s = s\<lparr>error := Some (js ''Please upload an image and provide a prompt.'')\<rparr>
         \<and> submitEdit ev generateContent s = handleSubmit s
         \<and> isLoading (handleSubmit s) = isLoading s
         \<and> generatedImageUrl (handleSubmit s) = generatedImageUrl s
         \<and> inFlight (handleSubmit s) = inFlight s"
  using assms by (auto simp: handleSubmit_def submitEdit_def split: option.splits)

theorem handleSubmit_validation_witness:
  "imageFile initial = None
   \<and> handleSubmit initial
       = initial\<lparr>error := Some (js ''Please upload an image and provide a prompt.'')\<rparr>
   \<and> isLoading (handleSubmit initial) = False
   \<and> inFlight (handleSubmit initial) = []
   \<and> prompt (setPrompt [] picked) = []
   \<and> handleSubmit (setPrompt [] picked)
       = (setPrompt [] picked)\<lparr>error := Some (js ''Please upload an image and provide a prompt.'')\<rparr>"
proof -
  have 1: "imageFile initial = None \<or> prompt initial = []" by (simp add: initial_def)
  have 2: "imageFile (setPrompt [] picked) = None \<or> prompt (setPrompt [] picked) = []"
    by (simp add: setPrompt_def)
  from handleSubmit_validation [OF 1] handleSubmit_validation [OF 2] show ?thesis
    by (simp add: initial_def setPrompt_def)
qed

lemma runEffects_settled: "cleanupUrl (runEffects s) = imagePreviewUrl (runEffects s)"
  by (simp add: runEffects_def revokeObjectURL_def split: option.splits)

lemma run_snoc: "run (es @ [e]) = fire e (run es)"
  by (simp add: run_def)

lemma run_effects_done: "cleanupUrl (run es) = imagePreviewUrl (run es)"
proof (cases es rule: rev_cases)
  case Nil
  then show ?thesis by (simp add: run_def initial_def)
next
  case (snoc es' e)
  then show ?thesis by (simp add: run_snoc fire_def runEffects_settled)
qed

text \<open>
  Claim C10. A change event that carries no file (no file list, or an empty one) changes
  nothing: \<open>handleImageChange\<close> returns the state as it is, with the file, the preview
  URL, the generated image, the error and the list of revoked URLs, and in the mounted
  component no effect runs after it.
\<close>

theorem handleImageChange_no_file:
  assumes "first_file files = None"
  shows "handleImageChange files s = s \<and> fire (ChangeFile files) (run es) = run es"
proof -
  have h: "handleImageChange files s' = s'" for s'
    using assms by (simp add: handleImageChange_def)
  have "runEffects (run es) = run es" by (simp add: runEffects_def run_effects_done)
  with h show ?thesis by (simp add: fire_def changeFile_def)
qed

theorem handleImageChange_no_file_witness:
  "first_file None = None \<and> first_file (Some []) = None
   \<and> handleImageChange None picked = picked \<and> handleImageChange (Some []) picked = picked
   \<and> fire (ChangeFile (Some [])) (run [ChangeFile (Some [example_file])])
       = run [ChangeFile (Some [example_file])]
   \<and> revoked (fire (ChangeFile None) (run [ChangeFile (Some [example_file])])) = []
   \<and> imagePreviewUrl (fire (ChangeFile None) (run [ChangeFile (Some [example_file])]))
       = Some (BlobUrl 0)"
proof -
  have 1: "first_file None = None" and 2: "first_file (Some []) = None"
    by (simp_all add: first_file_def)
  have r: "run [ChangeFile (Some [example_file])] = picked" by (simp add: run_def picked_def)
  from handleImageChange_no_file [OF 1, of picked "[ChangeFile (Some [example_file])]"]
    handleImageChange_no_file [OF 2, of picked "[ChangeFile (Some [example_file])]"]
  show ?thesis using 1 2 by (simp add: r picked_fields)
qed

section \<open>Properties of the mounted component\<close>

lemma runEffects_keeps [simp]:
  "inFlight (runEffects s) = inFlight s" "isLoading (runEffects s) = isLoading s"
  by (simp_all add: runEffects_def revokeObjectURL_def split: option.splits)

lemma handleImageChange_keeps [simp]:
  "inFlight (handleImageChange files s) = inFlight s"
  "isLoading (handleImageChange files s) = isLoading s"
  by (simp_all add: handleImageChange_def createObjectURL_def revokeObjectURL_def Let_def
      split: option.splits)

lemma fire_single_flight:
  assumes "length (inFlight s) \<le> 1" and "isLoading s = (inFlight s \<noteq> [])"
  shows "length (inFlight (fire e s)) \<le> 1 \<and> isLoading (fire e s) = (inFlight (fire e s) \<noteq> [])"
proof (cases "inFlight s")
  case Nil
  with assms show ?thesis
    by (cases e)
      (simp_all add: fire_def clickGenerate_def changeFile_def typePrompt_def setPrompt_def
        handleSubmit_def split: option.splits)
next
  case (Cons x xs)
  with assms have one: "inFlight s = [x]" and loading: "isLoading s" by simp_all
  show ?thesis
  proof (cases e)
    case (ReadDone f p ev)
    with one loading show ?thesis
      by (simp add: fire_def readSettled_def settle_def Let_def split: settled.splits sum.splits)
  next
    case (ServiceDone req outcome)
    with one loading show ?thesis
      by (simp add: fire_def serviceSettled_def settle_def split: sum.splits)
  qed (use one loading in \<open>simp_all add: fire_def clickGenerate_def changeFile_def typePrompt_def\<close>)
qed

lemma run_single_flight:
  "length (inFlight (run es)) \<le> 1 \<and> isLoading (run es) = (inFlight (run es) \<noteq> [])"
proof (induction es rule: rev_induct)
  case Nil
  then show ?case by (simp add: run_def initial_def)
next
  case (snoc e es)
  then show ?case unfolding run_snoc by (intro fire_single_flight) simp_all
qed

lemma runEffects_id: "cleanupUrl s = imagePreviewUrl s \<Longrightarrow> runEffects s = s"
  by (simp add: runEffects_def)

lemma submit_steps_keep_url [simp]:
  "cleanupUrl (handleSubmit s) = cleanupUrl s" "imagePreviewUrl (handleSubmit s) = imagePreviewUrl s"
  "cleanupUrl (readSettled f p ev s) = cleanupUrl s"
  "imagePreviewUrl (readSettled f p ev s) = imagePreviewUrl s"
  "cleanupUrl (serviceSettled req out s) = cleanupUrl s"
  "imagePreviewUrl (serviceSettled req out s) = imagePreviewUrl s"
  by (simp_all add: handleSubmit_def readSettled_def serviceSettled_def settle_def Let_def
      split: option.splits settled.splits sum.splits)

lemma submitEdit_is_a_run:
  assumes "\<not> isLoading (run es)" and "imageFile (run es) = Some f" and "prompt (run es) \<noteq> []"
  shows "\<exists>es'. submitEdit ev gc (run es) = run (es @ es')"
proof -
  let ?s = "run es"
  let ?p = "prompt ?s"
  from assms(1) have idle: "inFlight ?s = []" using run_single_flight [of es] by simp
  have url: "cleanupUrl ?s = imagePreviewUrl ?s" by (rule run_effects_done)
  have c: "fire ClickGenerate ?s = handleSubmit ?s"
    using assms url by (simp add: fire_def clickGenerate_def runEffects_id)
  have pending: "inFlight (handleSubmit ?s) = [Reading f ?p]"
    using assms idle by (simp add: handleSubmit_def)
  have r: "fire (ReadDone f ?p ev) (handleSubmit ?s) = readSettled f ?p ev (handleSubmit ?s)"
    using url by (simp add: fire_def pending runEffects_id)
  have two: "run (es @ [ClickGenerate, ReadDone f ?p ev]) = readSettled f ?p ev (handleSubmit ?s)"
    using run_snoc [of "es @ [ClickGenerate]" "ReadDone f ?p ev"] run_snoc [of es ClickGenerate]
    by (simp add: c r)
  show ?thesis
  proof (cases "fileToDataUrl ev")
    case (Rejected e)
    with assms have "submitEdit ev gc ?s = readSettled f ?p ev (handleSubmit ?s)"
      by (simp add: submitEdit_def Let_def)
    with two show ?thesis by metis
  next
    case (Resolved u)
    show ?thesis
    proof (cases "parseDataUrl u")
      case (Inl e)
      with Resolved assms have "submitEdit ev gc ?s = readSettled f ?p ev (handleSubmit ?s)"
        by (simp add: submitEdit_def Let_def)
      with two show ?thesis by metis
    next
      case (Inr d)
      let ?req = "editImage_request (base64 d) (mimeType d) ?p"
      let ?s1 = "readSettled f ?p ev (handleSubmit ?s)"
      from Inr Resolved assms have whole: "submitEdit ev gc ?s = serviceSettled ?req (gc ?req) ?s1"
        by (simp add: submitEdit_def Let_def)
      have "inFlight ?s1 = [Requesting ?req]"
        using Inr Resolved pending by (simp add: readSettled_def Let_def)
      then have "fire (ServiceDone ?req (gc ?req)) ?s1 = serviceSettled ?req (gc ?req) ?s1"
        using url by (simp add: fire_def runEffects_id)
      with two whole
      have "submitEdit ev gc ?s = run ((es @ [ClickGenerate, ReadDone f ?p ev]) @ [ServiceDone ?req (gc ?req)])"
        unfolding run_snoc by simp
      then show ?thesis by (metis append_assoc)
    qed
  qed
qed

text \<open>
  Claim C2. A run of \<open>handleSubmit\<close> that passes the guard sets the loading flag, and
  however the file read and the remote call settle, it ends with the flag cleared and
  with exactly one of the generated image and the error message set. In the mounted
  component the flag is set exactly while a run is suspended at an \<open>await\<close>.
\<close>

theorem submitEdit_leaves_loading:
  assumes "imageFile s = Some f" and "prompt s \<noteq> []"
  shows "isLoading (handleSubmit s)
         \<and> \<not> isLoading (submitEdit ev generateContent s)
         \<and> (generatedImageUrl (submitEdit ev generateContent s) \<noteq> None
              \<and> error (submitEdit ev generateContent s) = None
            \<or> generatedImageUrl (submitEdit ev generateContent s) = None
              \<and> error (submitEdit ev generateContent s) \<noteq> None)
         \<and> isLoading (run es) = (inFlight (run es) \<noteq> [])"
  using assms run_single_flight [of es]
  by (simp add: submitEdit_fields handleSubmit_def split: sum.splits)

theorem submitEdit_leaves_loading_witness:
  "imageFile picked = Some example_file \<and> prompt picked \<noteq> []
   \<and> isLoading (handleSubmit picked)
   \<and> \<not> isLoading (submitEdit (OnLoad (js ''data:image/png;base64,TWFu''))
          (\<lambda>_. Resolved text_then_images) picked)
   \<and> generatedImageUrl (submitEdit (OnLoad (js ''data:image/png;base64,TWFu''))
          (\<lambda>_. Resolved text_then_images) picked)
       = Some (js ''data:'' @ js ''image/jpeg'' @ js '';base64,'' @ js ''TWFu'')
   \<and> error (submitEdit (OnLoad (js ''data:image/png;base64,TWFu''))
          (\<lambda>_. Resolved text_then_images) picked) = None
   \<and> \<not> isLoading (submitEdit OnError (\<lambda>_. Resolved text_then_images) picked)
   \<and> generatedImageUrl (submitEdit OnError (\<lambda>_. Resolved text_then_images) picked) = None
   \<and> error (submitEdit OnError (\<lambda>_. Resolved text_then_images) picked)
       = Some (js ''An unknown error occurred.'')"
proof -
  let ?u = "js ''data:image/png;base64,TWFu''"
  let ?gc = "\<lambda>_ :: generate_request. Resolved text_then_images"
  have f: "imageFile picked = Some example_file" by (rule picked_fields)
  have p: "prompt picked \<noteq> []" by (simp add: picked_fields initial_prompt_nonempty)
  have ne: "js ''image/jpeg'' \<noteq> []" by (simp add: js_def)
  have g: "generatedImageUrl (submitEdit (OnLoad ?u) ?gc picked)
       = Some (js ''data:'' @ js ''image/jpeg'' @ js '';base64,'' @ js ''TWFu'')"
    using ne
    by (simp add: submitEdit_fields [OF f p] handleSubmit_try_def fileToDataUrl_def parse_example
        editImage_def editImage_settle_def editImage_try_def response_parts_def
        text_then_images_def string_or_def interpolate_def)
  have e: "error (submitEdit OnError ?gc picked) = Some (js ''An unknown error occurred.'')"
    by (simp add: submitEdit_fields [OF f p] handleSubmit_try_def fileToDataUrl_def errorMessage_def)
  from submitEdit_leaves_loading [OF f p, of "OnLoad ?u" ?gc]
    submitEdit_leaves_loading [OF f p, of OnError ?gc]
  show ?thesis using f p g e by simp
qed

text \<open>
  Claim C1, amended. While the loading flag is set the button is disabled, so a click on
  it changes nothing; and whatever the user does with the controls and however the
  promises settle, at most one run of \<open>handleSubmit\<close> is suspended at a time, the flag
  being set exactly when there is one. (\<open>handleSubmit\<close> itself does not test the flag.)
\<close>

theorem single_flight_through_controls:
  "(isLoading s \<longrightarrow> clickGenerate s = s)
   \<and> length (inFlight (run es)) \<le> 1
   \<and> isLoading (run es) = (inFlight (run es) \<noteq> [])"
  using run_single_flight [of es] by (simp add: clickGenerate_def)

theorem single_flight_through_controls_witness:
  "isLoading (run [ChangeFile (Some [example_file]), ClickGenerate])
   \<and> clickGenerate (run [ChangeFile (Some [example_file]), ClickGenerate])
       = run [ChangeFile (Some [example_file]), ClickGenerate]
   \<and> inFlight (run [ChangeFile (Some [example_file]), ClickGenerate, ClickGenerate])
       = [Reading example_file initial_prompt]"
proof -
  let ?es = "[ChangeFile (Some [example_file]), ClickGenerate]"
  have r1: "run [ChangeFile (Some [example_file])] = picked" by (simp add: run_def picked_def)
  have r: "run ?es = fire ClickGenerate picked" using run_snoc [of "[ChangeFile (Some [example_file])]"] r1 by simp
  have l: "isLoading (run ?es)"
    by (simp add: r fire_def clickGenerate_def picked_fields initial_prompt_nonempty handleSubmit_def)
  have i: "inFlight (run ?es) = [Reading example_file initial_prompt]"
    by (simp add: r fire_def clickGenerate_def picked_fields initial_prompt_nonempty handleSubmit_def)
  have c: "clickGenerate (run ?es) = run ?es"
    using single_flight_through_controls [of "run ?es" ?es] l by blast
  have "run (?es @ [ClickGenerate]) = fire ClickGenerate (run ?es)" by (rule run_snoc)
  then have "inFlight (run (?es @ [ClickGenerate])) = [Reading example_file initial_prompt]"
    by (simp add: fire_def c i)
  with l c show ?thesis by simp
qed

text \<open>
  Claim C1 as stated fails for \<open>handleSubmit\<close> itself, which tests the image and the
  prompt and not the loading flag: called in a loading state, it starts a second run.
\<close>

theorem handleSubmit_not_guarded_counterexample:
  "isLoading (handleSubmit picked)
   \<and> handleSubmit (handleSubmit picked) \<noteq> handleSubmit picked
   \<and> inFlight (handleSubmit (handleSubmit picked))
       = [Reading example_file initial_prompt, Reading example_file initial_prompt]"
proof -
  have 1: "inFlight (handleSubmit picked) = [Reading example_file initial_prompt]"
    and 2: "isLoading (handleSubmit picked)"
    by (simp_all add: handleSubmit_def picked_fields initial_prompt_nonempty)
  have 3: "inFlight (handleSubmit (handleSubmit picked))
       = [Reading example_file initial_prompt, Reading example_file initial_prompt]"
    by (simp add: handleSubmit_def picked_fields initial_prompt_nonempty)
  have "handleSubmit (handleSubmit picked) \<noteq> handleSubmit picked"
  proof
    assume "handleSubmit (handleSubmit picked) = handleSubmit picked"
    then have "inFlight (handleSubmit (handleSubmit picked)) = inFlight (handleSubmit picked)" by simp
    with 1 3 show False by simp
  qed
  with 2 3 show ?thesis by simp
qed

text \<open>
  Claim C3. After two selections the preview is the URL of the second file, and the URL
  of the first file has been revoked twice: once by \<open>handleImageChange\<close> and once more by
  the cleanup of the effect, which runs because the URL has changed. The URL of the second
  file is revoked once, at unmount.
\<close>

theorem superseded_url_revoked_twice:
  "imagePreviewUrl (run [ChangeFile (Some [f1]), ChangeFile (Some [f2])]) = Some (BlobUrl 1)
   \<and> imageFile (run [ChangeFile (Some [f1]), ChangeFile (Some [f2])]) = Some f2
   \<and> revoked (run [ChangeFile (Some [f1]), ChangeFile (Some [f2])]) = [BlobUrl 0, BlobUrl 0]
   \<and> revoked (unmount (run [ChangeFile (Some [f1]), ChangeFile (Some [f2])]))
       = [BlobUrl 0, BlobUrl 0, BlobUrl 1]
   \<and> revoked (handleImageChange (Some [f2]) (run [ChangeFile (Some [f1])])) = [BlobUrl 0]"
  by (simp add: run_def fire_def changeFile_def initial_def handleImageChange_def
      first_file_def createObjectURL_def revokeObjectURL_def runEffects_def unmount_def)

end
